theory Spec2Isabelle
  imports Main "HOL-Library.Word"
begin

section \<open>Python values, strings and errors\<close>

text \<open>
  The translator is a Python program. Its exceptions are values here: a call either returns
  normally (\<open>Inr\<close>) or raises (\<open>Inl\<close>). The methods of \<open>CodeWriter\<close> mutate the object
  before they raise, so their failing branch also carries the object as the raise leaves it.
  A character is a code point below 256.
\<close>

datatype error = ValueError string | KeyError string | TypeError | IndexError

text \<open>
  The \<open>index\<close> argument of \<open>write_push_pop\<close> is untyped: the driver hands over the token of
  the source line (a \<open>str\<close>, or \<open>None\<close> where the parser found no such token), a direct
  caller may hand over an \<open>int\<close>.
\<close>

datatype pyval = PInt int | PStr string | PNone

text \<open>Decimal rendering of an integer, as \<open>"{}".format(n)\<close> and \<open>str(n)\<close> give it.\<close>

definition digit_char :: "nat \<Rightarrow> char" where
  "digit_char d = ''0123456789'' ! d"

fun str_nat :: "nat \<Rightarrow> string" where
  "str_nat n = (if n < 10 then [digit_char n] else str_nat (n div 10) @ [digit_char (n mod 10)])"

declare str_nat.simps [simp del]

definition str_int :: "int \<Rightarrow> string" where
  "str_int i = (if i < 0 then CHR ''-'' # str_nat (nat (- i)) else str_nat (nat i))"

fun format_py :: "pyval \<Rightarrow> string" where
  "format_py (PInt i) = str_int i"
| "format_py (PStr s) = s"
| "format_py PNone = ''None''"

text \<open>\<open>str.isspace\<close> on the code points below 256, the set \<open>strip()\<close> and \<open>split()\<close> use.\<close>

definition is_space :: "char \<Rightarrow> bool" where
  "is_space c = (let n = (of_char c :: nat) in
     (9 \<le> n \<and> n \<le> 13) \<or> (28 \<le> n \<and> n \<le> 32) \<or> n = 133 \<or> n = 160)"

definition lstrip :: "string \<Rightarrow> string" where
  "lstrip s = dropWhile is_space s"

definition rstrip :: "string \<Rightarrow> string" where
  "rstrip s = rev (dropWhile is_space (rev s))"

definition strip :: "string \<Rightarrow> string" where
  "strip s = rstrip (lstrip s)"

text \<open>\<open>s.split("//")[0]\<close>: the text before the first occurrence of \<open>//\<close>, all of \<open>s\<close> without one.\<close>

fun before_comment :: "string \<Rightarrow> string" where
  "before_comment [] = []"
| "before_comment [c] = [c]"
| "before_comment (c # d # cs) =
     (if c = CHR ''/'' \<and> d = CHR ''/'' then [] else c # before_comment (d # cs))"

text \<open>
  \<open>s.split()\<close>: the maximal runs of non-whitespace characters, in order. The first argument
  is the token being read.
\<close>

fun split_from :: "string \<Rightarrow> string \<Rightarrow> string list" where
  "split_from cur [] = (if cur = [] then [] else [cur])"
| "split_from cur (c # cs) =
     (if is_space c then (if cur = [] then split_from [] cs else cur # split_from [] cs)
      else split_from (cur @ [c]) cs)"

definition split_ws :: "string \<Rightarrow> string list" where
  "split_ws s = split_from [] s"

text \<open>
  Subscription \<open>xs[i]\<close> of a list: positions from the front are \<open>0 \<dots> len - 1\<close>, positions
  from the back are \<open>-1 \<dots> -len\<close>, every other index raises \<open>IndexError\<close>.
\<close>

definition py_index :: "'a list \<Rightarrow> int \<Rightarrow> error + 'a" where
  "py_index xs i =
     (if 0 \<le> i \<and> i < int (length xs) then Inr (xs ! nat i)
      else if i < 0 \<and> - int (length xs) \<le> i then Inr (xs ! nat (int (length xs) + i))
      else Inl IndexError)"

section \<open>The command classifier\<close>

text \<open>
  The members of \<open>_CommandType\<close> that \<open>from_string\<close> can return. (The class attribute
  \<open>arithmetic_commands\<close> is the same list as the one tested in \<open>from_string\<close>.)
\<close>

datatype CommandType =
  C_ARITHMETIC | C_PUSH | C_POP | C_LABEL | C_GOTO | C_IF | C_FUNCTION | C_RETURN | C_CALL

definition arithmetic_commands :: "string list" where
  "arithmetic_commands =
     [''add'', ''sub'', ''neg'', ''eq'', ''gt'', ''lt'', ''and'', ''or'', ''not'']"

definition startswith_paren :: "string \<Rightarrow> bool" where
  "startswith_paren s = (case s of [] \<Rightarrow> False | c # _ \<Rightarrow> c = CHR ''('')"

definition from_string :: "string \<Rightarrow> error + CommandType" where
  "from_string command =
     (if command \<in> set arithmetic_commands then Inr C_ARITHMETIC
      else if command = ''push'' then Inr C_PUSH
      else if command = ''pop'' then Inr C_POP
      else if startswith_paren command then Inr C_LABEL
      else if command = ''goto'' then Inr C_GOTO
      else if command = ''function'' then Inr C_FUNCTION
      else if command = ''return'' then Inr C_RETURN
      else if command = ''call'' then Inr C_CALL
      else Inl (ValueError command))"

section \<open>The parser\<close>

record ParsedInstruction =
  ptype :: CommandType
  parg1 :: string
  parg2 :: "string option"

record Parser =
  vm_instructions :: "string list"
  current_instruction_index :: int
  current_parsed_instruction :: "ParsedInstruction option"

text \<open>
  The loop of \<open>Parser.__init__\<close> over the lines of the file (\<open>f.read().splitlines()\<close>),
  appending to the list of retained instructions.
\<close>

fun retain_lines :: "string list \<Rightarrow> string list \<Rightarrow> string list" where
  "retain_lines acc [] = acc"
| "retain_lines acc (line # rest) =
     (let instruction = before_comment (strip line)
      in if instruction \<noteq> [] then retain_lines (acc @ [instruction]) rest
         else retain_lines acc rest)"

definition Parser_init :: "string list \<Rightarrow> Parser" where
  "Parser_init raw_vm_instructions =
     \<lparr>vm_instructions = retain_lines [] raw_vm_instructions,
      current_instruction_index = 0,
      current_parsed_instruction = None\<rparr>"

definition current_raw_instruction :: "Parser \<Rightarrow> error + string" where
  "current_raw_instruction p = py_index (vm_instructions p) (current_instruction_index p - 1)"

definition parse_instruction :: "string \<Rightarrow> error + ParsedInstruction" where
  "parse_instruction raw_instruction =
     (let split_instruction = split_ws raw_instruction in
      case py_index split_instruction 0 of
        Inl e \<Rightarrow> Inl e
      | Inr tok0 \<Rightarrow>
         (case from_string tok0 of
            Inl e \<Rightarrow> Inl e
          | Inr instruction_type \<Rightarrow>
             if instruction_type = C_ARITHMETIC
             then Inr \<lparr>ptype = instruction_type, parg1 = tok0, parg2 = None\<rparr>
             else (case py_index split_instruction 1 of
                     Inl e \<Rightarrow> Inl e
                   | Inr tok1 \<Rightarrow>
                      (case py_index split_instruction 2 of
                         Inl e \<Rightarrow> Inl e
                       | Inr tok2 \<Rightarrow>
                          Inr \<lparr>ptype = instruction_type, parg1 = tok1, parg2 = Some tok2\<rparr>))))"

definition has_more_lines :: "Parser \<Rightarrow> bool" where
  "has_more_lines p = (current_instruction_index p < int (length (vm_instructions p)))"

definition advance :: "Parser \<Rightarrow> error \<times> Parser + Parser" where
  "advance p =
     (if \<not> has_more_lines p then Inl (ValueError ''No more lines to advance to'', p)
      else
        let p1 = p\<lparr>current_instruction_index := current_instruction_index p + 1\<rparr> in
        case current_raw_instruction p1 of
          Inl e \<Rightarrow> Inl (e, p1)
        | Inr raw \<Rightarrow>
           (case parse_instruction raw of
              Inl e \<Rightarrow> Inl (e, p1)
            | Inr parsed \<Rightarrow> Inr (p1\<lparr>current_parsed_instruction := Some parsed\<rparr>)))"

section \<open>The code writer\<close>

record CodeWriter =
  assembly :: "string list list"
  temp_vm_instruction :: "string list"
  lt_counter :: int
  out_file :: string

definition registers :: "string \<rightharpoonup> int" where
  "registers = [''sp'' \<mapsto> 0, ''lcl'' \<mapsto> 1, ''arg'' \<mapsto> 2, ''this'' \<mapsto> 3, ''that'' \<mapsto> 4,
                ''temp'' \<mapsto> 5, ''static'' \<mapsto> 16]"

definition default_bases :: "string \<rightharpoonup> int" where
  "default_bases = [''sp'' \<mapsto> 256]"

definition CodeWriter_init :: "string \<Rightarrow> CodeWriter" where
  "CodeWriter_init f =
     \<lparr>assembly = [[''// initialize register values'', ''@256'', ''D=A'', ''@SP'', ''M=D'']],
      temp_vm_instruction = [],
      lt_counter = 0,
      out_file = f\<rparr>"

definition emit :: "string list \<Rightarrow> CodeWriter \<Rightarrow> CodeWriter" where
  "emit ls cw = cw\<lparr>temp_vm_instruction := temp_vm_instruction cw @ ls\<rparr>"

definition pop_to_d :: "CodeWriter \<Rightarrow> CodeWriter" where
  "pop_to_d cw = emit [''@SP'', ''AM=M-1'', ''D=M''] cw"

text \<open>The cleanup both handlers end with: the finished Block joins the program.\<close>

definition flush_block :: "CodeWriter \<Rightarrow> CodeWriter" where
  "flush_block cw =
     cw\<lparr>assembly := assembly cw @ [temp_vm_instruction cw], temp_vm_instruction := []\<rparr>"

definition jump_of :: "string \<Rightarrow> error + string" where
  "jump_of comparison =
     (if comparison = ''eq'' then Inr ''JEQ''
      else if comparison = ''gt'' then Inr ''JGT''
      else if comparison = ''lt'' then Inr ''JLT''
      else Inl (ValueError comparison))"

definition comparison_lines :: "string \<Rightarrow> int \<Rightarrow> string list" where
  "comparison_lines instruction n =
     [''@SP'', ''AM=M-1'', ''D=M'',
      ''@SP'', ''AM=M-1'', ''D=M-D'',
      ''@LT_TRUE_'' @ str_int n, ''D;'' @ instruction,
      ''@SP'', ''A=M'', ''M=0'',
      ''@LT_END_'' @ str_int n, ''0;JMP'',
      ''(LT_TRUE_'' @ str_int n @ '')'',
      ''@SP'', ''A=M'', ''M=-1'',
      ''(LT_END_'' @ str_int n @ '')'',
      ''@SP'', ''M=M+1'']"

definition generate_comparison :: "string \<Rightarrow> CodeWriter \<Rightarrow> error \<times> CodeWriter + CodeWriter" where
  "generate_comparison comparison cw =
     (case jump_of comparison of
        Inl e \<Rightarrow> Inl (e, cw)
      | Inr instruction \<Rightarrow>
          Inr ((emit (comparison_lines instruction (lt_counter cw)) cw)
                 \<lparr>lt_counter := lt_counter cw + 1\<rparr>))"

definition write_arithmetic :: "string \<Rightarrow> CodeWriter \<Rightarrow> error \<times> CodeWriter + CodeWriter" where
  "write_arithmetic command cw0 =
     (let cw = cw0\<lparr>temp_vm_instruction := []\<rparr> in
      if command = ''add'' then
        Inr (flush_block (emit [''A=A-1'', ''M=M+D''] (pop_to_d (emit [''// add''] cw))))
      else if command = ''sub'' then
        Inr (flush_block (emit [''A=A-1'', ''M=M-D''] (pop_to_d (emit [''// sub''] cw))))
      else if command = ''neg'' then
        Inr (flush_block (emit [''// neg'', ''@SP'', ''A=M-1'', ''M=-M''] cw))
      else if command \<in> set [''lt'', ''gt'', ''eq''] then
        (case generate_comparison command cw of
           Inl e \<Rightarrow> Inl e
         | Inr cw1 \<Rightarrow> Inr (flush_block cw1))
      else if command \<in> set [''and'', ''or''] then
        (let operator = (if command = ''and'' then ''&'' else ''|'') in
         Inr (flush_block (emit [''A=A-1'', ''M=M'' @ operator @ ''D'']
                (pop_to_d (emit [''// '' @ command] cw)))))
      else if command = ''not'' then
        Inr (flush_block (emit [''// not'', ''@SP'', ''A=M-1'', ''M=!M''] cw))
      else Inl (ValueError command, cw))"

text \<open>
  \<open>self.default_bases[segment] + index\<close>: the subscript is evaluated first (\<open>KeyError\<close> on a
  name the table lacks), then the sum (\<open>TypeError\<close> for \<open>int + str\<close>).
\<close>

definition base_plus_index :: "string \<Rightarrow> pyval \<Rightarrow> error + int" where
  "base_plus_index segment index =
     (case default_bases segment of
        None \<Rightarrow> Inl (KeyError segment)
      | Some b \<Rightarrow> (case index of PInt i \<Rightarrow> Inr (b + i) | _ \<Rightarrow> Inl TypeError))"

definition echo_comment :: "CommandType \<Rightarrow> string \<Rightarrow> pyval \<Rightarrow> string" where
  "echo_comment command segment index =
     ''// '' @ (if command = C_POP then ''pop'' else ''push'') @ '' '' @ segment @ '' ''
       @ format_py index"

definition write_push_pop ::
  "CommandType \<Rightarrow> string \<Rightarrow> pyval \<Rightarrow> CodeWriter \<Rightarrow> error \<times> CodeWriter + CodeWriter" where
  "write_push_pop command segment index cw0 =
     (let cw = emit [echo_comment command segment index] cw0 in
      if segment = ''constant'' then
        (if command = C_PUSH then
           Inr (flush_block (emit [''@'' @ format_py index, ''D=A'', ''@SP'', ''A=M'', ''M=D'',
                                   ''@SP'', ''M=M+1''] cw))
         else Inr (flush_block cw))
      else if command = C_PUSH then
        (case base_plus_index segment index of
           Inl e \<Rightarrow> Inl (e, cw)
         | Inr a \<Rightarrow>
            Inr (flush_block (emit [''@'' @ str_int a, ''A=M'', ''D=M'', ''@SP'', ''A=M'', ''M=D'',
                                    ''@SP'', ''M=M+1''] cw)))
      else
        (let cw1 = emit [''@SP'', ''M=M-1'', ''@SP'', ''A=M'', ''D=M''] cw in
         case base_plus_index segment index of
           Inl e \<Rightarrow> Inl (e, cw1)
         | Inr a \<Rightarrow> Inr (flush_block (emit [''@'' @ str_int a, ''M=D''] cw1))))"

text \<open>
  The output sink: the files by path, and the log of the paths opened for writing.
  \<open>close\<close> opens the file (truncating it), writes every line of every Block followed by a
  newline, and closes it. The I/O itself is taken to succeed.
\<close>

record FileSys =
  files :: "string \<rightharpoonup> string"
  opened :: "string list"

definition epilogue :: "string list" where
  "epilogue = [''(END)'', ''@END'', ''0;JMP'']"

definition file_text :: "string list list \<Rightarrow> string" where
  "file_text blocks = concat (map (\<lambda>l. l @ [CHR 0x0A]) (concat blocks))"

definition close :: "CodeWriter \<Rightarrow> FileSys \<Rightarrow> CodeWriter \<times> FileSys" where
  "close cw fs =
     (let cw1 = cw\<lparr>assembly := assembly cw @ [epilogue]\<rparr>
      in (cw1, fs\<lparr>files := (files fs)(out_file cw1 \<mapsto> file_text (assembly cw1)),
                 opened := opened fs @ [out_file cw1]\<rparr>))"

section \<open>The driver\<close>

record VmTranslator =
  parser :: Parser
  code_writer :: CodeWriter

definition VmTranslator_init :: "string list \<Rightarrow> string \<Rightarrow> VmTranslator" where
  "VmTranslator_init in_lines out = \<lparr>parser = Parser_init in_lines, code_writer = CodeWriter_init out\<rparr>"

text \<open>
  One round of the loop of \<open>translate\<close>, after \<open>has_more_lines\<close> answered yes. The accessors
  read the instruction \<open>advance\<close> has just parsed.
\<close>

definition dispatch :: "ParsedInstruction \<Rightarrow> CodeWriter \<Rightarrow> error \<times> CodeWriter + CodeWriter" where
  "dispatch ins cw =
     (if ptype ins = C_ARITHMETIC then write_arithmetic (parg1 ins) cw
      else if ptype ins \<in> set [C_PUSH, C_POP] then
        write_push_pop (ptype ins) (parg1 ins)
          (case parg2 ins of Some tok \<Rightarrow> PStr tok | None \<Rightarrow> PNone) cw
      else Inr cw)"

function translate :: "VmTranslator \<Rightarrow> error \<times> VmTranslator + VmTranslator" where
  "translate vm =
     (if has_more_lines (parser vm) then
        (case advance (parser vm) of
           Inl (e, p) \<Rightarrow> Inl (e, vm\<lparr>parser := p\<rparr>)
         | Inr p \<Rightarrow>
            (case current_parsed_instruction p of
               None \<Rightarrow> Inl (TypeError, vm\<lparr>parser := p\<rparr>)
             | Some ins \<Rightarrow>
                (case dispatch ins (code_writer vm) of
                   Inl (e, cw) \<Rightarrow> Inl (e, \<lparr>parser = p, code_writer = cw\<rparr>)
                 | Inr cw \<Rightarrow> translate \<lparr>parser = p, code_writer = cw\<rparr>)))
      else Inr vm)"
  by pat_completeness auto
termination
proof (relation "measure (\<lambda>vm. nat (int (length (vm_instructions (parser vm)))
                                  - current_instruction_index (parser vm)))")
  show "wf (measure (\<lambda>vm. nat (int (length (vm_instructions (parser vm)))
                                  - current_instruction_index (parser vm))))"
    by simp
next
  fix vm :: VmTranslator and p x2 cw
  assume more: "has_more_lines (parser vm)" and adv: "advance (parser vm) = Inr p"
  from adv more have "vm_instructions p = vm_instructions (parser vm)
      \<and> current_instruction_index p = current_instruction_index (parser vm) + 1"
    by (auto simp: advance_def Let_def split: sum.splits if_splits)
  with more show "(\<lparr>parser = p, code_writer = cw\<rparr>, vm)
      \<in> measure (\<lambda>vm. nat (int (length (vm_instructions (parser vm)))
                                  - current_instruction_index (parser vm)))"
    by (simp add: has_more_lines_def)
qed

declare translate.simps [simp del]

definition vm_close :: "VmTranslator \<Rightarrow> FileSys \<Rightarrow> VmTranslator \<times> FileSys" where
  "vm_close vm fs = (let (cw, fs1) = close (code_writer vm) fs in (vm\<lparr>code_writer := cw\<rparr>, fs1))"

section \<open>The target machine\<close>

text \<open>
  Modelled from the spec: the target machine that runs the emitted text is not in the
  repository. The spec describes it as a machine with one data register, one address
  register and a stack pointer held in a dedicated memory cell, whose booleans are all bits
  set and all bits zero; the translator's docstring names it: Hack. The model below is the
  Hack machine: words of 16 bits, the registers \<open>A\<close> and \<open>D\<close>, \<open>M\<close> for the memory cell
  that \<open>A\<close> addresses, A-instructions \<open>@value\<close> that load a constant of 15 bits or the
  address a symbol stands for, C-instructions \<open>dest=comp;jump\<close>, label declarations
  \<open>(NAME)\<close> that name the address of the next instruction, and \<open>//\<close> comment lines. Each
  string the translator emits is one line of the program. Emitted lines carry no
  whitespace outside comments, so the assembler below does not strip any.
\<close>

type_synonym word16 = "16 word"

datatype reg = RA | RD | RM

datatype comp =
  CZero | COne | CMinusOne | CReg reg | CNot reg | CNeg reg | CInc reg | CDec reg
  | CAdd reg reg | CSub reg reg | CAnd reg reg | COr reg reg

datatype jump = JNone | JGT | JEQ | JGE | JLT | JNE | JLE | JMP

datatype instr = AInstr word16 | CInstr "reg list" comp jump

record machine =
  regA :: word16
  regD :: word16
  ram :: "word16 \<Rightarrow> word16"

subsection \<open>The assembler\<close>

definition is_digit :: "char \<Rightarrow> bool" where
  "is_digit c = (48 \<le> (of_char c :: nat) \<and> (of_char c :: nat) \<le> 57)"

definition digit_val :: "char \<Rightarrow> nat" where
  "digit_val c = of_char c - 48"

definition nat_of_decimal :: "string \<Rightarrow> nat" where
  "nat_of_decimal s = foldl (\<lambda>acc c. 10 * acc + digit_val c) 0 s"

definition parse_reg :: "char \<Rightarrow> reg option" where
  "parse_reg c =
     (if c = CHR ''A'' then Some RA else if c = CHR ''D'' then Some RD
      else if c = CHR ''M'' then Some RM else None)"

text \<open>A two-operand computation combines \<open>D\<close> with \<open>A\<close> or with \<open>M\<close>, in either order.\<close>

definition operands_ok :: "reg \<Rightarrow> reg \<Rightarrow> bool" where
  "operands_ok x y = ((x = RD \<and> y \<noteq> RD) \<or> (x \<noteq> RD \<and> y = RD))"

definition parse_binop :: "char \<Rightarrow> reg \<Rightarrow> reg \<Rightarrow> comp option" where
  "parse_binop oper x y =
     (if \<not> operands_ok x y then None
      else if oper = CHR ''+'' then Some (CAdd x y)
      else if oper = CHR ''-'' then Some (CSub x y)
      else if oper = CHR ''&'' then Some (CAnd x y)
      else if oper = CHR ''|'' then Some (COr x y)
      else None)"

definition parse_comp :: "string \<Rightarrow> comp option" where
  "parse_comp s =
     (case s of
        [a] \<Rightarrow>
          if a = CHR ''0'' then Some CZero else if a = CHR ''1'' then Some COne
          else map_option CReg (parse_reg a)
      | [a, b] \<Rightarrow>
          if a = CHR ''-'' \<and> b = CHR ''1'' then Some CMinusOne
          else if a = CHR ''!'' then map_option CNot (parse_reg b)
          else if a = CHR ''-'' then map_option CNeg (parse_reg b)
          else None
      | [a, oper, b] \<Rightarrow>
          (case parse_reg a of
             None \<Rightarrow> None
           | Some x \<Rightarrow>
               if b = CHR ''1'' then
                 (if oper = CHR ''+'' then Some (CInc x)
                  else if oper = CHR ''-'' then Some (CDec x) else None)
               else (case parse_reg b of None \<Rightarrow> None | Some y \<Rightarrow> parse_binop oper x y))
      | _ \<Rightarrow> None)"

definition parse_dest :: "string \<Rightarrow> reg list option" where
  "parse_dest s =
     (case those (map parse_reg s) of
        None \<Rightarrow> None
      | Some rs \<Rightarrow> if rs \<noteq> [] \<and> distinct rs then Some rs else None)"

definition parse_jump :: "string \<Rightarrow> jump option" where
  "parse_jump s =
     map_of [(''JGT'', JGT), (''JEQ'', JEQ), (''JGE'', JGE), (''JLT'', JLT),
             (''JNE'', JNE), (''JLE'', JLE), (''JMP'', JMP)] s"

definition parse_c :: "string \<Rightarrow> instr option" where
  "parse_c s =
     (let has_dest = (CHR ''='' \<in> set s);
          d = takeWhile (\<lambda>c. c \<noteq> CHR ''='') s;
          r = (if has_dest then tl (dropWhile (\<lambda>c. c \<noteq> CHR ''='') s) else s);
          c = takeWhile (\<lambda>c. c \<noteq> CHR '';'') r;
          j = dropWhile (\<lambda>c. c \<noteq> CHR '';'') r
      in case (if has_dest then parse_dest d else Some []) of
           None \<Rightarrow> None
         | Some ds \<Rightarrow>
            (case parse_comp c of
               None \<Rightarrow> None
             | Some cc \<Rightarrow>
                (case (if j = [] then Some JNone else parse_jump (tl j)) of
                   None \<Rightarrow> None
                 | Some jj \<Rightarrow> Some (CInstr ds cc jj))))"

definition predefined :: "(string \<times> nat) list" where
  "predefined =
     [(''SP'', 0), (''LCL'', 1), (''ARG'', 2), (''THIS'', 3), (''THAT'', 4),
      (''R0'', 0), (''R1'', 1), (''R2'', 2), (''R3'', 3), (''R4'', 4), (''R5'', 5),
      (''R6'', 6), (''R7'', 7), (''R8'', 8), (''R9'', 9), (''R10'', 10), (''R11'', 11),
      (''R12'', 12), (''R13'', 13), (''R14'', 14), (''R15'', 15),
      (''SCREEN'', 16384), (''KBD'', 24576)]"

text \<open>
  The operand of an A-instruction: a decimal constant below \<open>2 ^ 15\<close>, a predefined symbol
  or a declared label. Anything else (the emitted code declares no variables) is rejected.
\<close>

definition resolve :: "(string \<times> nat) list \<Rightarrow> string \<Rightarrow> nat option" where
  "resolve labels s =
     (if s \<noteq> [] \<and> list_all is_digit s then
        (let n = nat_of_decimal s in if n < 32768 then Some n else None)
      else map_of (predefined @ labels) s)"

definition is_skipped :: "string \<Rightarrow> bool" where
  "is_skipped l = (l = [] \<or> take 2 l = ''//'')"

definition is_label :: "string \<Rightarrow> bool" where
  "is_label l = (case l of [] \<Rightarrow> False | c # cs \<Rightarrow> c = CHR ''('' \<and> cs \<noteq> [] \<and> last cs = CHR '')'')"

definition label_name :: "string \<Rightarrow> string" where
  "label_name l = butlast (tl l)"

definition parse_line :: "(string \<times> nat) list \<Rightarrow> string \<Rightarrow> instr option" where
  "parse_line labels l =
     (case l of
        [] \<Rightarrow> None
      | c # cs \<Rightarrow>
          if c = CHR ''@'' then map_option (\<lambda>n. AInstr (of_nat n)) (resolve labels cs)
          else parse_c l)"

fun collect_labels :: "nat \<Rightarrow> string list \<Rightarrow> (string \<times> nat) list" where
  "collect_labels a [] = []"
| "collect_labels a (l # ls) =
     (if is_skipped l then collect_labels a ls
      else if is_label l then (label_name l, a) # collect_labels a ls
      else collect_labels (Suc a) ls)"

fun encode :: "(string \<times> nat) list \<Rightarrow> string list \<Rightarrow> instr list option" where
  "encode labels [] = Some []"
| "encode labels (l # ls) =
     (if is_skipped l \<or> is_label l then encode labels ls
      else (case parse_line labels l of
              None \<Rightarrow> None
            | Some i \<Rightarrow> map_option ((#) i) (encode labels ls)))"

definition assemble :: "string list \<Rightarrow> instr list option" where
  "assemble ls = encode (collect_labels 0 ls) ls"

subsection \<open>Execution\<close>

definition reg_val :: "reg \<Rightarrow> machine \<Rightarrow> word16" where
  "reg_val r m = (case r of RA \<Rightarrow> regA m | RD \<Rightarrow> regD m | RM \<Rightarrow> ram m (regA m))"

fun eval_comp :: "comp \<Rightarrow> machine \<Rightarrow> word16" where
  "eval_comp CZero m = 0"
| "eval_comp COne m = 1"
| "eval_comp CMinusOne m = - 1"
| "eval_comp (CReg r) m = reg_val r m"
| "eval_comp (CNot r) m = not (reg_val r m)"
| "eval_comp (CNeg r) m = - reg_val r m"
| "eval_comp (CInc r) m = reg_val r m + 1"
| "eval_comp (CDec r) m = reg_val r m - 1"
| "eval_comp (CAdd x y) m = reg_val x m + reg_val y m"
| "eval_comp (CSub x y) m = reg_val x m - reg_val y m"
| "eval_comp (CAnd x y) m = and (reg_val x m) (reg_val y m)"
| "eval_comp (COr x y) m = or (reg_val x m) (reg_val y m)"

text \<open>A jump tests the computed value, read as a two's complement number, against zero.\<close>

fun jump_taken :: "jump \<Rightarrow> word16 \<Rightarrow> bool" where
  "jump_taken JNone v = False"
| "jump_taken JGT v = (0 < sint v)"
| "jump_taken JEQ v = (v = 0)"
| "jump_taken JGE v = (0 \<le> sint v)"
| "jump_taken JLT v = (sint v < 0)"
| "jump_taken JNE v = (v \<noteq> 0)"
| "jump_taken JLE v = (sint v \<le> 0)"
| "jump_taken JMP v = True"

text \<open>
  One instruction. A C-instruction computes from the registers as they are, stores the
  value in every destination (\<open>M\<close> is the cell the old \<open>A\<close> addresses) and jumps to the
  instruction the old \<open>A\<close> addresses when the jump condition holds.
\<close>

definition store :: "reg list \<Rightarrow> word16 \<Rightarrow> machine \<Rightarrow> machine" where
  "store ds v m =
     \<lparr>regA = (if RA \<in> set ds then v else regA m),
      regD = (if RD \<in> set ds then v else regD m),
      ram = (if RM \<in> set ds then (ram m)(regA m := v) else ram m)\<rparr>"

fun step :: "instr \<Rightarrow> nat \<Rightarrow> machine \<Rightarrow> nat \<times> machine" where
  "step (AInstr w) pc m = (Suc pc, m\<lparr>regA := w\<rparr>)"
| "step (CInstr ds c j) pc m =
     (let v = eval_comp c m
      in (if jump_taken j v then unat (regA m) else Suc pc, store ds v m))"

text \<open>
  The program has halted when control has left it or has reached the closing idiom of a
  Hack program, an unconditional jump to itself: \<open>(X) @X 0;JMP\<close>.
\<close>

definition is_halt_loop :: "instr list \<Rightarrow> nat \<Rightarrow> bool" where
  "is_halt_loop rom pc =
     (Suc pc < length rom \<and> rom ! pc = AInstr (of_nat pc) \<and>
      (case rom ! Suc pc of CInstr ds c j \<Rightarrow> ds = [] \<and> j = JMP | AInstr w \<Rightarrow> False))"

datatype outcome = Halted machine | OutOfFuel | AsmError

fun exec :: "nat \<Rightarrow> instr list \<Rightarrow> nat \<Rightarrow> machine \<Rightarrow> outcome" where
  "exec fuel rom pc m =
     (if length rom \<le> pc \<or> is_halt_loop rom pc then Halted m
      else (case fuel of
              0 \<Rightarrow> OutOfFuel
            | Suc n \<Rightarrow> (case step (rom ! pc) pc m of (pc1, m1) \<Rightarrow> exec n rom pc1 m1)))"

declare exec.simps [simp del]

definition hack_run :: "nat \<Rightarrow> string list \<Rightarrow> machine \<Rightarrow> outcome" where
  "hack_run fuel ls m =
     (case assemble ls of None \<Rightarrow> AsmError | Some rom \<Rightarrow> exec fuel rom 0 m)"

text \<open>What an outcome shows of the memory: the content of a cell once the run has halted.\<close>

fun final_ram :: "outcome \<Rightarrow> word16 \<Rightarrow> word16 option" where
  "final_ram (Halted m) a = Some (ram m a)"
| "final_ram OutOfFuel a = None"
| "final_ram AsmError a = None"

definition machine0 :: machine where
  "machine0 = \<lparr>regA = 0, regD = 0, ram = (\<lambda>a. 0)\<rparr>"

section \<open>Runs of the translator\<close>

definition empty_fs :: FileSys where
  "empty_fs = \<lparr>files = Map.empty, opened = []\<rparr>"

text \<open>
  The main script: build the translator on the lines of the input, translate, close. The
  result is the text of the program, one string per line.
\<close>

definition output_program :: "string list \<Rightarrow> error + string list" where
  "output_program in_lines =
     (case translate (VmTranslator_init in_lines ''out.asm'') of
        Inl (e, vm) \<Rightarrow> Inl e
      | Inr vm \<Rightarrow> Inr (concat (assembly (code_writer (fst (vm_close vm empty_fs))))))"

text \<open>What the translated program of a source text leaves in a memory cell when run.\<close>

definition program_leaves :: "nat \<Rightarrow> string list \<Rightarrow> machine \<Rightarrow> word16 \<Rightarrow> word16 option" where
  "program_leaves fuel in_lines m a =
     (case output_program in_lines of
        Inl e \<Rightarrow> None
      | Inr prog \<Rightarrow> final_ram (hack_run fuel prog m) a)"

text \<open>
  A sequence of calls to the two handlers of one \<open>CodeWriter\<close>, stopping at the first
  exception as the driver does.
\<close>

datatype call = Arithmetic string | PushPop CommandType string pyval

fun run_call :: "call \<Rightarrow> CodeWriter \<Rightarrow> error \<times> CodeWriter + CodeWriter" where
  "run_call (Arithmetic command) cw = write_arithmetic command cw"
| "run_call (PushPop command segment index) cw = write_push_pop command segment index cw"

fun run_calls :: "call list \<Rightarrow> CodeWriter \<Rightarrow> error \<times> CodeWriter + CodeWriter" where
  "run_calls [] cw = Inr cw"
| "run_calls (c # cs) cw =
     (case run_call c cw of Inl e \<Rightarrow> Inl e | Inr cw1 \<Rightarrow> run_calls cs cw1)"

fun is_comparison :: "call \<Rightarrow> bool" where
  "is_comparison (Arithmetic command) = (command \<in> set [''lt'', ''gt'', ''eq''])"
| "is_comparison (PushPop command segment index) = False"

text \<open>The label declarations of a program, in order, and the pair a comparison declares.\<close>

definition label_decls :: "string list list \<Rightarrow> string list" where
  "label_decls blocks = filter is_label (concat blocks)"

definition label_pair :: "int \<Rightarrow> string list" where
  "label_pair n = [''(LT_TRUE_'' @ str_int n @ '')'', ''(LT_END_'' @ str_int n @ '')'']"

text \<open>
  The comparison of the two operands as numbers in two's complement, which is what the
  three operators are said to compute.
\<close>

definition compare_holds :: "string \<Rightarrow> word16 \<Rightarrow> word16 \<Rightarrow> bool" where
  "compare_holds comparison v1 v2 =
     (if comparison = ''eq'' then v1 = v2
      else if comparison = ''gt'' then sint v1 > sint v2
      else sint v1 < sint v2)"

text \<open>The test the emitted Block makes: the jump condition on the difference of 16 bits.\<close>

definition difference_test :: "string \<Rightarrow> word16 \<Rightarrow> word16 \<Rightarrow> bool" where
  "difference_test comparison v1 v2 =
     (if comparison = ''eq'' then v1 - v2 = 0
      else if comparison = ''gt'' then 0 < sint (v1 - v2)
      else sint (v1 - v2) < 0)"

section \<open>Properties\<close>

subsection \<open>Decimal numerals\<close>

lemma digit_char_props:
  assumes "d < 10"
  shows "is_digit (digit_char d)" and "digit_val (digit_char d) = d"
proof -
  from assms have "d \<in> {0,1,2,3,4,5,6,7,8,9}" by auto
  then show "is_digit (digit_char d)" "digit_val (digit_char d) = d"
    by (auto simp: digit_char_def is_digit_def digit_val_def)
qed

lemma str_nat_digits: "list_all is_digit (str_nat n)"
  by (induction n rule: str_nat.induct) (subst str_nat.simps, simp add: digit_char_props)

lemma str_nat_nonempty: "str_nat n \<noteq> []"
  by (subst str_nat.simps) simp

lemma nat_of_decimal_snoc: "nat_of_decimal (s @ [c]) = 10 * nat_of_decimal s + digit_val c"
  by (simp add: nat_of_decimal_def)

lemma nat_of_decimal_str_nat: "nat_of_decimal (str_nat n) = n"
proof (induction n rule: str_nat.induct)
  case (1 n)
  show ?case
  proof (cases "n < 10")
    case True
    then show ?thesis
      by (subst str_nat.simps) (simp add: nat_of_decimal_def digit_char_props)
  next
    case False
    with 1 have "nat_of_decimal (str_nat (n div 10)) = n div 10" by simp
    with False show ?thesis
      by (subst str_nat.simps) (simp add: nat_of_decimal_snoc digit_char_props)
  qed
qed

lemma str_nat_inj: "str_nat a = str_nat b \<Longrightarrow> a = b"
  by (metis nat_of_decimal_str_nat)

lemma str_nat_hd_digit: "is_digit (hd (str_nat n))"
  using str_nat_digits [of n] str_nat_nonempty [of n] by (cases "str_nat n") auto

lemma str_int_inj: "str_int a = str_int b \<Longrightarrow> a = b"
proof -
  assume eq: "str_int a = str_int b"
  have nd: "\<not> is_digit (CHR ''-'')" by (simp add: is_digit_def)
  have neq: "CHR ''-'' # s \<noteq> str_nat n" for s n
    using str_nat_hd_digit [of n] nd by (cases "str_nat n") auto
  show ?thesis
  proof (cases "a < 0"; cases "b < 0")
    assume "a < 0" "b < 0"
    with eq have "nat (- a) = nat (- b)" by (simp add: str_int_def str_nat_inj)
    with \<open>a < 0\<close> \<open>b < 0\<close> show ?thesis by simp
  next
    assume "a < 0" "\<not> b < 0"
    with eq neq show ?thesis by (simp add: str_int_def)
  next
    assume "\<not> a < 0" "b < 0"
    with eq neq [of "str_nat (nat (- b))" "nat a"] show ?thesis by (simp add: str_int_def)
  next
    assume "\<not> a < 0" "\<not> b < 0"
    with eq have "nat a = nat b" by (simp add: str_int_def str_nat_inj)
    with \<open>\<not> a < 0\<close> \<open>\<not> b < 0\<close> show ?thesis by simp
  qed
qed


lemma str_int_256: "str_int 256 = ''256''"
  by (simp add: str_int_def str_nat.simps digit_char_def)

subsection \<open>Errors of the handlers\<close>

text \<open>
  C5. A token outside the nine operators makes \<open>write_arithmetic\<close> raise
  \<open>ValueError\<close> with that token (the translator's InvalidOperator). The handler has emptied
  its scratch Block before the test and appends nothing: the object the raise leaves
  differs from the one before the call at most in the emptied scratch Block, so the
  program and the label counter are as they were.
\<close>

theorem write_arithmetic_invalid_operator:
  "command \<notin> set arithmetic_commands \<Longrightarrow>
   write_arithmetic command cw = Inl (ValueError command, cw\<lparr>temp_vm_instruction := []\<rparr>)"
  by (simp add: write_arithmetic_def arithmetic_commands_def)

theorem write_arithmetic_invalid_operator_witness:
  "''mul'' \<notin> set arithmetic_commands \<and>
   write_arithmetic ''mul'' (CodeWriter_init ''out.asm'')
     = Inl (ValueError ''mul'', (CodeWriter_init ''out.asm'')\<lparr>temp_vm_instruction := []\<rparr>)"
  using write_arithmetic_invalid_operator [of "''mul''" "CodeWriter_init ''out.asm''"]
  by (simp add: arithmetic_commands_def)

text \<open>
  C6. In a push or pop on a segment other than \<open>constant\<close> the address is looked up in
  the table \<open>default_bases\<close>: a name the table lacks raises \<open>KeyError\<close> with that name
  (the translator's UnknownSegment), whatever the command and the index, and the program
  is not extended; a name the table has, with an integer index, yields the Block that
  addresses the table's base plus the index.
\<close>

theorem unknown_segment_fails:
  "segment \<noteq> ''constant'' \<Longrightarrow>
   (default_bases segment = None \<longrightarrow>
      write_push_pop command segment index cw
        = Inl (KeyError segment,
               cw\<lparr>temp_vm_instruction := temp_vm_instruction cw @
                    [echo_comment command segment index] @
                    (if command = C_PUSH then []
                     else [''@SP'', ''M=M-1'', ''@SP'', ''A=M'', ''D=M''])\<rparr>))
   \<and> (\<forall>b. default_bases segment = Some b \<longrightarrow>
        write_push_pop command segment (PInt i) cw
          = Inr (cw\<lparr>assembly := assembly cw @
                  [temp_vm_instruction cw @ [echo_comment command segment (PInt i)] @
                   (if command = C_PUSH
                    then [''@'' @ str_int (b + i), ''A=M'', ''D=M'', ''@SP'', ''A=M'', ''M=D'',
                          ''@SP'', ''M=M+1'']
                    else [''@SP'', ''M=M-1'', ''@SP'', ''A=M'', ''D=M'',
                          ''@'' @ str_int (b + i), ''M=D''])],
                 temp_vm_instruction := []\<rparr>))"
  by (simp add: write_push_pop_def base_plus_index_def emit_def flush_block_def Let_def)

theorem unknown_segment_fails_witness:
  "''local'' \<noteq> ''constant'' \<and> default_bases ''local'' = None
   \<and> write_push_pop C_PUSH ''local'' (PStr ''0'') (CodeWriter_init ''out.asm'')
       = Inl (KeyError ''local'',
              (CodeWriter_init ''out.asm'')\<lparr>temp_vm_instruction := [''// push local 0'']\<rparr>)
   \<and> ''sp'' \<noteq> ''constant'' \<and> default_bases ''sp'' = Some 256
   \<and> write_push_pop C_POP ''sp'' (PInt 0) (CodeWriter_init ''out.asm'')
       = Inr ((CodeWriter_init ''out.asm'')\<lparr>assembly := assembly (CodeWriter_init ''out.asm'') @
               [[''// pop sp 0'', ''@SP'', ''M=M-1'', ''@SP'', ''A=M'', ''D=M'', ''@256'', ''M=D'']],
               temp_vm_instruction := []\<rparr>)"
  using unknown_segment_fails [of "''local''" C_PUSH "PStr ''0''" "CodeWriter_init ''out.asm''" 0]
    unknown_segment_fails [of "''sp''" C_POP PNone "CodeWriter_init ''out.asm''" 0]
  by (simp add: default_bases_def CodeWriter_init_def echo_comment_def str_int_256
      str_int_def str_nat.simps digit_char_def)

text \<open>
  C9. \<open>_parse_instruction\<close> on an instruction whose first token the classifier
  recognises: an arithmetic instruction carries its operator as \<open>arg1\<close> and no \<open>arg2\<close>;
  any other instruction carries its second token as \<open>arg1\<close> and its third as \<open>arg2\<close>, and
  raises \<open>IndexError\<close> (the translator's InsufficientTokens) when it has fewer than three
  tokens. Three tokens is what the parser asks of every class other than arithmetic, and
  no class asks for more.
\<close>

theorem parse_instruction_arguments:
  "split_ws raw = tok0 # rest \<Longrightarrow> from_string tok0 = Inr ty \<Longrightarrow>
   parse_instruction raw =
     (if ty = C_ARITHMETIC then Inr \<lparr>ptype = C_ARITHMETIC, parg1 = tok0, parg2 = None\<rparr>
      else if length rest < 2 then Inl IndexError
      else Inr \<lparr>ptype = ty, parg1 = rest ! 0, parg2 = Some (rest ! 1)\<rparr>)"
  by (cases rest; cases "tl rest") (auto simp: parse_instruction_def py_index_def)

lemma split_push: "split_ws ''push constant 7'' = [''push'', ''constant'', ''7'']"
  by (simp add: split_ws_def is_space_def)

lemma split_goto: "split_ws ''goto LOOP'' = [''goto'', ''LOOP'']"
  by (simp add: split_ws_def is_space_def)

theorem parse_instruction_arguments_witness:
  "split_ws ''push constant 7'' = ''push'' # [''constant'', ''7'']
   \<and> from_string ''push'' = Inr C_PUSH
   \<and> parse_instruction ''push constant 7''
       = Inr \<lparr>ptype = C_PUSH, parg1 = ''constant'', parg2 = Some ''7''\<rparr>
   \<and> split_ws ''goto LOOP'' = ''goto'' # [''LOOP'']
   \<and> from_string ''goto'' = Inr C_GOTO
   \<and> parse_instruction ''goto LOOP'' = Inl IndexError"
  using parse_instruction_arguments [of "''push constant 7''" "''push''" "[''constant'', ''7'']" C_PUSH]
    parse_instruction_arguments [of "''goto LOOP''" "''goto''" "[''LOOP'']" C_GOTO]
  by (simp add: split_push split_goto from_string_def arithmetic_commands_def startswith_paren_def)

subsection \<open>Closing\<close>

text \<open>
  C7 (as the code has it). \<open>close\<close> has no memory of having run: each call appends one
  epilogue Block and opens the output file once, rewriting it with the whole program. A
  second call therefore leaves two epilogue Blocks at the end of the program and the
  file opened twice.
\<close>

theorem close_twice_duplicates:
  "close (fst (close cw fs)) (snd (close cw fs))
     = (cw\<lparr>assembly := assembly cw @ [epilogue, epilogue]\<rparr>,
        fs\<lparr>files := (files fs)(out_file cw \<mapsto> file_text (assembly cw @ [epilogue, epilogue])),
           opened := opened fs @ [out_file cw, out_file cw]\<rparr>)"
  by (simp add: close_def)

theorem close_twice_duplicates_witness:
  "close (fst (close (CodeWriter_init ''prog.asm'') empty_fs))
         (snd (close (CodeWriter_init ''prog.asm'') empty_fs))
     = ((CodeWriter_init ''prog.asm'')
          \<lparr>assembly := assembly (CodeWriter_init ''prog.asm'') @ [epilogue, epilogue]\<rparr>,
        empty_fs\<lparr>files := (files empty_fs)(''prog.asm'' \<mapsto>
                     file_text (assembly (CodeWriter_init ''prog.asm'') @ [epilogue, epilogue])),
                 opened := opened empty_fs @ [''prog.asm'', ''prog.asm'']\<rparr>)"
  using close_twice_duplicates [of "CodeWriter_init ''prog.asm''" empty_fs]
  by (simp add: CodeWriter_init_def)

text \<open>
  C7 as stated fails on a fresh writer closed twice: the program then ends with two
  epilogue Blocks and the file \<open>out.asm\<close> has been opened twice.
\<close>

theorem close_twice_counterexample:
  "assembly (fst (close (fst (close (CodeWriter_init ''out.asm'') empty_fs))
                        (snd (close (CodeWriter_init ''out.asm'') empty_fs))))
     = [[''// initialize register values'', ''@256'', ''D=A'', ''@SP'', ''M=D''],
        [''(END)'', ''@END'', ''0;JMP''], [''(END)'', ''@END'', ''0;JMP'']]
   \<and> opened (snd (close (fst (close (CodeWriter_init ''out.asm'') empty_fs))
                        (snd (close (CodeWriter_init ''out.asm'') empty_fs))))
     = [''out.asm'', ''out.asm'']"
  by (simp add: close_def CodeWriter_init_def empty_fs_def epilogue_def)

subsection \<open>Popping to the constant segment\<close>

lemma echo_comment_skipped: "is_skipped (echo_comment command segment index)"
  by (simp add: is_skipped_def echo_comment_def)

lemma exec_empty: "exec fuel [] 0 m = Halted m"
  by (simp add: exec.simps)

text \<open>
  C10. \<open>pop constant k\<close> does not raise, whatever the index: in a writer whose scratch
  Block is empty, as every call that returned leaves it, the handler appends the Block
  that holds the echo comment alone. That Block assembles to no instruction, so running
  it leaves the registers and the whole memory, the stack pointer included, as they were.
\<close>

theorem pop_constant_emits_comment_only:
  "temp_vm_instruction cw = [] \<Longrightarrow>
   write_push_pop C_POP ''constant'' index cw
     = Inr (cw\<lparr>assembly := assembly cw @ [[echo_comment C_POP ''constant'' index]]\<rparr>)
   \<and> hack_run fuel [echo_comment C_POP ''constant'' index] m = Halted m"
  by (simp add: write_push_pop_def emit_def flush_block_def hack_run_def assemble_def
      echo_comment_skipped exec_empty)

theorem pop_constant_emits_comment_only_witness:
  "temp_vm_instruction (CodeWriter_init ''out.asm'') = []
   \<and> write_push_pop C_POP ''constant'' (PStr ''5'') (CodeWriter_init ''out.asm'')
     = Inr ((CodeWriter_init ''out.asm'')\<lparr>assembly :=
         assembly (CodeWriter_init ''out.asm'') @ [[''// pop constant 5'']]\<rparr>)
   \<and> hack_run 0 [''// pop constant 5''] machine0 = Halted machine0"
  using pop_constant_emits_comment_only [of "CodeWriter_init ''out.asm''" "PStr ''5''" 0 machine0]
  by (simp add: CodeWriter_init_def echo_comment_def)

subsection \<open>The lines the parser retains\<close>

lemma not_space_slash: "\<not> is_space (CHR ''/'')"
  by (simp add: is_space_def)

lemma rstrip_Cons:
  "rstrip (c # s) =
     (if \<forall>x\<in>set s. is_space x then (if is_space c then [] else [c]) else c # rstrip s)"
proof (cases "\<forall>x\<in>set s. is_space x")
  case True
  then have "dropWhile is_space (rev s @ [c]) = dropWhile is_space [c]"
    by (intro dropWhile_append2) simp
  with True show ?thesis by (simp add: rstrip_def)
next
  case False
  then obtain x where "x \<in> set (rev s)" "\<not> is_space x" by auto
  then have "dropWhile is_space (rev s @ [c]) = dropWhile is_space (rev s) @ [c]"
    by (rule dropWhile_append1)
  with False show ?thesis by (simp add: rstrip_def)
qed

lemma rstrip_empty_iff: "rstrip s = [] \<longleftrightarrow> (\<forall>x\<in>set s. is_space x)"
  by (simp add: rstrip_def dropWhile_eq_Nil_conv)

lemma strip_empty_iff: "strip s = [] \<longleftrightarrow> (\<forall>x\<in>set s. is_space x)"
proof -
  have "(\<forall>x\<in>set (dropWhile is_space s). is_space x) \<longleftrightarrow> (\<forall>x\<in>set s. is_space x)"
    by (induction s) auto
  then show ?thesis by (simp add: strip_def lstrip_def rstrip_empty_iff)
qed

lemma before_comment_empty_iff: "before_comment s = [] \<longleftrightarrow> s = [] \<or> take 2 s = ''//''"
  by (cases s rule: before_comment.cases) auto

lemma take2_rstrip: "take 2 (rstrip s) = ''//'' \<longleftrightarrow> take 2 s = ''//''"
proof (cases s rule: before_comment.cases)
  case (3 c d cs)
  then show ?thesis using not_space_slash by (auto simp: rstrip_Cons)
qed (auto simp: rstrip_Cons rstrip_def)

lemma lstrip_spaces_iff: "(\<forall>x\<in>set (lstrip s). is_space x) \<longleftrightarrow> lstrip s = []"
proof
  assume all: "\<forall>x\<in>set (lstrip s). is_space x"
  show "lstrip s = []"
  proof (rule ccontr)
    assume ne: "lstrip s \<noteq> []"
    then have "\<not> is_space (hd (dropWhile is_space s))"
      unfolding lstrip_def by (rule hd_dropWhile)
    moreover from ne have "hd (lstrip s) \<in> set (lstrip s)" by simp
    ultimately show False using all by (simp add: lstrip_def)
  qed
qed simp

lemma comment_first_empty_iff:
  "before_comment (strip l) = [] \<longleftrightarrow> lstrip l = [] \<or> take 2 (lstrip l) = ''//''"
  by (simp add: before_comment_empty_iff strip_def take2_rstrip rstrip_empty_iff
      lstrip_spaces_iff)

lemma trim_last_empty_iff:
  "strip (before_comment l) = [] \<longleftrightarrow> lstrip l = [] \<or> take 2 (lstrip l) = ''//''"
  unfolding strip_empty_iff lstrip_def
  using not_space_slash by (induction l rule: before_comment.induct) auto

lemma retained_iff: "before_comment (strip l) \<noteq> [] \<longleftrightarrow> strip (before_comment l) \<noteq> []"
  by (simp add: comment_first_empty_iff trim_last_empty_iff)

lemma retain_lines_acc:
  "retain_lines acc ls =
     acc @ map (\<lambda>l. before_comment (strip l)) (filter (\<lambda>l. strip (before_comment l) \<noteq> []) ls)"
  by (induction ls arbitrary: acc) (simp_all add: Let_def retained_iff)

text \<open>
  C8 (as the code has it). The parser trims a line first and cuts the comment second. It
  retains a line exactly when the text before the first \<open>//\<close> is not empty once
  trimmed, as the claim says, and the retained lines keep their order; but the retained
  instruction is the trimmed line cut at the first \<open>//\<close>, so whitespace that stood
  between the instruction and a comment stays at its end.
\<close>

theorem parser_retains_lines:
  "vm_instructions (Parser_init ls) =
     map (\<lambda>l. before_comment (strip l)) (filter (\<lambda>l. strip (before_comment l) \<noteq> []) ls)"
  by (simp add: Parser_init_def retain_lines_acc)

theorem parser_retains_lines_witness:
  "vm_instructions (Parser_init [''push constant 7 // x'', [], ''   '', ''// note'', ''  add''])
     = [''push constant 7 '', ''add'']"
  using parser_retains_lines [of "[''push constant 7 // x'', [], ''   '', ''// note'', ''  add'']"]
  by (simp add: strip_def lstrip_def rstrip_def is_space_def)

text \<open>
  C8 as stated fails on the line \<open>add // c\<close>: the parser retains \<open>add\<close> followed by a
  space, not the trimmed text \<open>add\<close>.
\<close>

theorem parser_keeps_space_before_comment:
  "vm_instructions (Parser_init [''add // c'']) = [''add '']
   \<and> strip (before_comment ''add // c'') = ''add''"
  by (simp add: Parser_init_def strip_def lstrip_def rstrip_def is_space_def)


subsection \<open>Labels of the comparisons\<close>

lemma label_decls_snoc: "label_decls (bs @ [b]) = label_decls bs @ filter is_label b"
  by (simp add: label_decls_def)

lemma labels_of_comparison:
  "filter is_label (comparison_lines instruction n) = label_pair n"
proof -
  have "\<not> is_label (''D;'' @ instruction)" by (simp add: is_label_def)
  then show ?thesis by (simp add: comparison_lines_def label_pair_def is_label_def)
qed

lemma no_label_echo: "\<not> is_label (echo_comment command segment index)"
  by (simp add: echo_comment_def is_label_def)

lemma write_arithmetic_labels:
  assumes "write_arithmetic command cw = Inr cw'"
  shows "temp_vm_instruction cw' = []"
    and "lt_counter cw' = lt_counter cw + (if is_comparison (Arithmetic command) then 1 else 0)"
    and "label_decls (assembly cw') = label_decls (assembly cw) @
           (if is_comparison (Arithmetic command) then label_pair (lt_counter cw) else [])"
  using assms
  by (auto simp: write_arithmetic_def generate_comparison_def jump_of_def emit_def pop_to_d_def
      flush_block_def label_decls_snoc labels_of_comparison is_label_def Let_def
      split: if_splits)

lemma write_push_pop_labels:
  assumes "write_push_pop command segment index cw = Inr cw'" and "temp_vm_instruction cw = []"
  shows "temp_vm_instruction cw' = []"
    and "lt_counter cw' = lt_counter cw"
    and "label_decls (assembly cw') = label_decls (assembly cw)"
  using assms no_label_echo [of command segment index]
  by (auto simp: write_push_pop_def emit_def flush_block_def label_decls_snoc
      is_label_def Let_def split: if_splits sum.splits)

lemma run_call_labels:
  assumes "run_call c cw = Inr cw'" and "temp_vm_instruction cw = []"
  shows "temp_vm_instruction cw' = []"
    and "lt_counter cw' = lt_counter cw + (if is_comparison c then 1 else 0)"
    and "label_decls (assembly cw') = label_decls (assembly cw) @
           (if is_comparison c then label_pair (lt_counter cw) else [])"
proof -
  show "temp_vm_instruction cw' = []"
    using assms write_arithmetic_labels(1) write_push_pop_labels(1) by (cases c) auto
  show "lt_counter cw' = lt_counter cw + (if is_comparison c then 1 else 0)"
    using assms write_arithmetic_labels(2) write_push_pop_labels(2) by (cases c) auto
  show "label_decls (assembly cw') = label_decls (assembly cw) @
           (if is_comparison c then label_pair (lt_counter cw) else [])"
    using assms write_arithmetic_labels(3) write_push_pop_labels(3) by (cases c) auto
qed

lemma upt_Suc_shift: "[0..<Suc n] = 0 # map Suc [0..<n]"
  by (simp add: upt_conv_Cons map_Suc_upt del: upt_Suc)

lemma run_calls_labels:
  "run_calls cs cw = Inr cw' \<Longrightarrow> temp_vm_instruction cw = [] \<Longrightarrow>
   lt_counter cw' = lt_counter cw + int (length (filter is_comparison cs))
   \<and> label_decls (assembly cw') = label_decls (assembly cw) @
        concat (map (\<lambda>k. label_pair (lt_counter cw + int k))
                  [0..<length (filter is_comparison cs)])"
proof (induction cs arbitrary: cw)
  case Nil
  then show ?case by simp
next
  case (Cons c cs)
  from Cons.prems(1) obtain cw1 where
    one: "run_call c cw = Inr cw1" and rest: "run_calls cs cw1 = Inr cw'"
    by (auto split: sum.splits)
  note step = run_call_labels [OF one Cons.prems(2)]
  note ih = Cons.IH [OF rest step(1)]
  show ?case
  proof (cases "is_comparison c")
    case True
    have shift: "(\<lambda>k. label_pair (lt_counter cw + 1 + int k))
                 = (\<lambda>k. label_pair (lt_counter cw + int k)) \<circ> Suc"
      by (auto simp: fun_eq_iff algebra_simps)
    from True ih step show ?thesis
      by (simp add: upt_Suc_shift shift del: upt_Suc)
  next
    case False
    with ih step show ?thesis by simp
  qed
qed

lemma label_pair_distinct: "distinct (label_pair n)"
  by (simp add: label_pair_def)

lemma label_pair_disjoint: "a \<noteq> b \<Longrightarrow> set (label_pair a) \<inter> set (label_pair b) = {}"
  by (auto simp: label_pair_def dest: str_int_inj)

lemma label_pair_inj: "label_pair a = label_pair b \<Longrightarrow> a = b"
  by (auto simp: label_pair_def dest: str_int_inj)

lemma end_not_in_pair: "''(END)'' \<notin> set (label_pair n)"
  by (simp add: label_pair_def)

lemma label_pairs_distinct: "distinct (concat (map (\<lambda>k. label_pair (int k)) [0..<n]))"
proof (rule distinct_concat)
  show "distinct (map (\<lambda>k. label_pair (int k)) [0..<n])"
    by (auto simp: distinct_map inj_on_def dest: label_pair_inj)
next
  fix ys assume "ys \<in> set (map (\<lambda>k. label_pair (int k)) [0..<n])"
  then show "distinct ys" by (auto simp: label_pair_distinct)
next
  fix ys zs
  assume "ys \<in> set (map (\<lambda>k. label_pair (int k)) [0..<n])"
    "zs \<in> set (map (\<lambda>k. label_pair (int k)) [0..<n])" "ys \<noteq> zs"
  then obtain a b where "ys = label_pair a" "zs = label_pair b" "a \<noteq> b"
    by fastforce
  then show "set ys \<inter> set zs = {}"
    by (simp add: label_pair_disjoint)
qed

lemma label_decls_init: "label_decls (assembly (CodeWriter_init out)) = []"
  by (simp add: label_decls_def CodeWriter_init_def is_label_def)

lemma label_decls_close:
  "label_decls (assembly (fst (close cw fs))) = label_decls (assembly cw) @ [''(END)'']"
  by (simp add: close_def label_decls_snoc epilogue_def is_label_def)

text \<open>
  C4. In one writer, from its construction on, every call of a handler that returns
  leaves the counter equal to the number of comparisons translated so far: each
  comparison takes the current counter for its pair of labels and adds one to it, no
  other call touches it. The label declarations of the program are therefore the pairs
  numbered \<open>0, 1, 2, \<dots>\<close> in order, one pair per comparison, and no two declarations are
  the same text, also once \<open>close\<close> has added the label of the epilogue.
\<close>

theorem comparison_labels_unique:
  "run_calls cs (CodeWriter_init out) = Inr cw \<Longrightarrow>
   lt_counter cw = int (length (filter is_comparison cs))
   \<and> label_decls (assembly cw)
       = concat (map (\<lambda>k. label_pair (int k)) [0..<length (filter is_comparison cs)])
   \<and> distinct (label_decls (assembly cw))
   \<and> distinct (label_decls (assembly (fst (close cw fs))))"
proof -
  assume run: "run_calls cs (CodeWriter_init out) = Inr cw"
  have t: "temp_vm_instruction (CodeWriter_init out) = []"
    and c: "lt_counter (CodeWriter_init out) = 0"
    by (simp_all add: CodeWriter_init_def)
  from run_calls_labels [OF run t] c
  have cnt: "lt_counter cw = int (length (filter is_comparison cs))"
    and decls: "label_decls (assembly cw)
       = concat (map (\<lambda>k. label_pair (int k)) [0..<length (filter is_comparison cs)])"
    by (simp_all add: label_decls_init)
  have d: "distinct (label_decls (assembly cw))"
    unfolding decls by (rule label_pairs_distinct)
  have "''(END)'' \<notin> set (label_decls (assembly cw))"
    unfolding decls using end_not_in_pair by auto
  with d have "distinct (label_decls (assembly (fst (close cw fs))))"
    by (simp add: label_decls_close)
  with cnt decls d show ?thesis by simp
qed

theorem comparison_labels_unique_witness:
  "run_calls [Arithmetic ''eq'', PushPop C_PUSH ''constant'' (PStr ''3''), Arithmetic ''lt'']
     (CodeWriter_init ''out.asm'')
     = Inr \<lparr>assembly =
              [[''// initialize register values'', ''@256'', ''D=A'', ''@SP'', ''M=D''],
               comparison_lines ''JEQ'' 0,
               [''// push constant 3'', ''@3'', ''D=A'', ''@SP'', ''A=M'', ''M=D'', ''@SP'', ''M=M+1''],
               comparison_lines ''JLT'' 1],
             temp_vm_instruction = [], lt_counter = 2, out_file = ''out.asm''\<rparr>
   \<and> label_decls
        [[''// initialize register values'', ''@256'', ''D=A'', ''@SP'', ''M=D''],
         comparison_lines ''JEQ'' 0,
         [''// push constant 3'', ''@3'', ''D=A'', ''@SP'', ''A=M'', ''M=D'', ''@SP'', ''M=M+1''],
         comparison_lines ''JLT'' 1]
       = [''(LT_TRUE_0)'', ''(LT_END_0)'', ''(LT_TRUE_1)'', ''(LT_END_1)'']"
proof -
  have run: "run_calls [Arithmetic ''eq'', PushPop C_PUSH ''constant'' (PStr ''3''), Arithmetic ''lt'']
     (CodeWriter_init ''out.asm'')
     = Inr \<lparr>assembly =
              [[''// initialize register values'', ''@256'', ''D=A'', ''@SP'', ''M=D''],
               comparison_lines ''JEQ'' 0,
               [''// push constant 3'', ''@3'', ''D=A'', ''@SP'', ''A=M'', ''M=D'', ''@SP'', ''M=M+1''],
               comparison_lines ''JLT'' 1],
             temp_vm_instruction = [], lt_counter = 2, out_file = ''out.asm''\<rparr>"
    by (simp add: write_arithmetic_def write_push_pop_def generate_comparison_def jump_of_def
        emit_def flush_block_def CodeWriter_init_def echo_comment_def)
  have two: "[0..<2] = [0, Suc 0]" by (simp add: upt_rec)
  have s0: "str_int 0 = ''0''" and s1: "str_int 1 = ''1''"
    by (simp_all add: str_int_def str_nat.simps digit_char_def)
  from comparison_labels_unique [OF run, of empty_fs] run show ?thesis
    by (simp add: two label_pair_def s0 s1)
qed

subsection \<open>Running emitted code\<close>

lemma exec_unfold:
  "exec fuel rom pc m =
     (if length rom \<le> pc \<or> is_halt_loop rom pc then Halted m
      else if fuel = 0 then OutOfFuel
      else (case step (rom ! pc) pc m of (pc1, m1) \<Rightarrow> exec (fuel - 1) rom pc1 m1))"
  by (subst exec.simps) (simp split: nat.splits)

text \<open>A run that has halted halts in the same state with any larger allowance of steps.\<close>

lemma exec_more_fuel:
  "exec n rom pc m = Halted m' \<Longrightarrow> exec (n + k) rom pc m = Halted m'"
proof (induction n arbitrary: pc m)
  case 0
  then have "(length rom \<le> pc \<or> is_halt_loop rom pc) \<and> m = m'"
    by (subst (asm) exec.simps) (simp split: if_splits)
  then show ?case by (subst exec.simps) simp
next
  case (Suc n)
  show ?case
  proof (cases "length rom \<le> pc \<or> is_halt_loop rom pc")
    case True
    with Suc.prems show ?thesis
      by (subst exec.simps, subst (asm) exec.simps) simp
  next
    case False
    obtain pc1 m1 where st: "step (rom ! pc) pc m = (pc1, m1)" by (cases "step (rom ! pc) pc m")
    with False Suc.prems have "exec n rom pc1 m1 = Halted m'"
      by (subst (asm) exec.simps) simp
    then have "exec (n + k) rom pc1 m1 = Halted m'" by (rule Suc.IH)
    with False st show ?thesis by (subst exec.simps) simp
  qed
qed

lemma hack_run_more_fuel:
  "hack_run n ls m = Halted m' \<Longrightarrow> hack_run (n + k) ls m = Halted m'"
  by (auto simp: hack_run_def exec_more_fuel split: option.splits)

lemmas asm_simps = assemble_def is_skipped_def is_label_def label_name_def parse_line_def
  resolve_def is_digit_def nat_of_decimal_def digit_val_def predefined_def parse_c_def
  parse_dest_def parse_comp_def parse_reg_def parse_binop_def operands_ok_def parse_jump_def

lemmas translate_simps = output_program_def VmTranslator_init_def Parser_init_def
  CodeWriter_init_def translate.simps has_more_lines_def advance_def
  current_raw_instruction_def py_index_def parse_instruction_def split_ws_def from_string_def
  arithmetic_commands_def startswith_paren_def dispatch_def write_push_pop_def
  write_arithmetic_def emit_def pop_to_d_def flush_block_def echo_comment_def vm_close_def
  close_def epilogue_def strip_def lstrip_def rstrip_def is_space_def Let_def
  generate_comparison_def jump_of_def comparison_lines_def empty_fs_def

lemmas exec_simps = exec_unfold is_halt_loop_def store_def reg_val_def Let_def

lemma str_int_0: "str_int 0 = ''0''"
  by (simp add: str_int_def str_nat.simps digit_char_def)

subsection \<open>Scenario A\<close>

lemma output_a:
  "output_program [''push constant 7'', ''push constant 8'', ''add''] = Inr
     [''// initialize register values'', ''@256'', ''D=A'', ''@SP'', ''M=D'',
      ''// push constant 7'', ''@7'', ''D=A'', ''@SP'', ''A=M'', ''M=D'', ''@SP'', ''M=M+1'',
      ''// push constant 8'', ''@8'', ''D=A'', ''@SP'', ''A=M'', ''M=D'', ''@SP'', ''M=M+1'',
      ''// add'', ''@SP'', ''AM=M-1'', ''D=M'', ''A=A-1'', ''M=M+D'',
      ''(END)'', ''@END'', ''0;JMP'']"
  by (simp add: translate_simps)

lemma run_a:
  "hack_run 23
     [''// initialize register values'', ''@256'', ''D=A'', ''@SP'', ''M=D'',
      ''// push constant 7'', ''@7'', ''D=A'', ''@SP'', ''A=M'', ''M=D'', ''@SP'', ''M=M+1'',
      ''// push constant 8'', ''@8'', ''D=A'', ''@SP'', ''A=M'', ''M=D'', ''@SP'', ''M=M+1'',
      ''// add'', ''@SP'', ''AM=M-1'', ''D=M'', ''A=A-1'', ''M=M+D'',
      ''(END)'', ''@END'', ''0;JMP''] m
   = Halted \<lparr>regA = 256, regD = 8, ram = (ram m)(0 := 257, 256 := 15, 257 := 8)\<rparr>"
proof -
  have "assemble
     [''// initialize register values'', ''@256'', ''D=A'', ''@SP'', ''M=D'',
      ''// push constant 7'', ''@7'', ''D=A'', ''@SP'', ''A=M'', ''M=D'', ''@SP'', ''M=M+1'',
      ''// push constant 8'', ''@8'', ''D=A'', ''@SP'', ''A=M'', ''M=D'', ''@SP'', ''M=M+1'',
      ''// add'', ''@SP'', ''AM=M-1'', ''D=M'', ''A=A-1'', ''M=M+D'',
      ''(END)'', ''@END'', ''0;JMP'']
   = Some
      [AInstr 256, CInstr [RD] (CReg RA) JNone, AInstr 0, CInstr [RM] (CReg RD) JNone,
       AInstr 7, CInstr [RD] (CReg RA) JNone, AInstr 0, CInstr [RA] (CReg RM) JNone,
       CInstr [RM] (CReg RD) JNone, AInstr 0, CInstr [RM] (CInc RM) JNone,
       AInstr 8, CInstr [RD] (CReg RA) JNone, AInstr 0, CInstr [RA] (CReg RM) JNone,
       CInstr [RM] (CReg RD) JNone, AInstr 0, CInstr [RM] (CInc RM) JNone,
       AInstr 0, CInstr [RA, RM] (CDec RM) JNone, CInstr [RD] (CReg RM) JNone,
       CInstr [RA] (CDec RA) JNone, CInstr [RM] (CAdd RM RD) JNone,
       AInstr 23, CInstr [] CZero JMP]"
    by (simp add: asm_simps)
  then show ?thesis
    by (simp add: hack_run_def exec_simps; auto simp: fun_eq_iff)
qed

text \<open>
  C1 (as the code has it). The program translated from \<open>push constant 7\<close>,
  \<open>push constant 8\<close>, \<open>add\<close> runs, from any initial state, through its 23
  instructions into the halting loop of the epilogue. It leaves the stack pointer (cell
  0) at 257 and the sum 15 in cell 256, the top of the stack; cell 257, above the top,
  still holds the popped operand 8.
\<close>

theorem scenario_a_result:
  "\<exists>prog. output_program [''push constant 7'', ''push constant 8'', ''add''] = Inr prog
     \<and> hack_run (23 + k) prog m
         = Halted \<lparr>regA = 256, regD = 8, ram = (ram m)(0 := 257, 256 := 15, 257 := 8)\<rparr>"
  using output_a hack_run_more_fuel [OF run_a] by blast

theorem scenario_a_result_witness:
  "\<exists>prog. output_program [''push constant 7'', ''push constant 8'', ''add''] = Inr prog
     \<and> hack_run 23 prog machine0
         = Halted \<lparr>regA = 256, regD = 8, ram = (ram machine0)(0 := 257, 256 := 15, 257 := 8)\<rparr>"
  using scenario_a_result [of 0 machine0] by simp

text \<open>
  C1 as stated fails: after the run from the all-zero memory, cell 257 holds 8, not 15
  (the 15 is in cell 256), and the stack pointer is 257, not 258.
\<close>

theorem scenario_a_counterexample:
  "program_leaves 23 [''push constant 7'', ''push constant 8'', ''add''] machine0 257 = Some 8
   \<and> program_leaves 23 [''push constant 7'', ''push constant 8'', ''add''] machine0 256 = Some 15
   \<and> program_leaves 23 [''push constant 7'', ''push constant 8'', ''add''] machine0 0 = Some 257"
  by (simp add: program_leaves_def output_a run_a)

subsection \<open>Comparisons\<close>

lemma assemble_comparison:
  assumes "(ins, j) \<in> {(''JEQ'', JEQ), (''JGT'', JGT), (''JLT'', JLT)}"
  shows "assemble (comparison_lines ins n) = Some
    [AInstr 0, CInstr [RA, RM] (CDec RM) JNone, CInstr [RD] (CReg RM) JNone,
     AInstr 0, CInstr [RA, RM] (CDec RM) JNone, CInstr [RD] (CSub RM RD) JNone,
     AInstr 13, CInstr [] (CReg RD) j,
     AInstr 0, CInstr [RA] (CReg RM) JNone, CInstr [RM] CZero JNone,
     AInstr 16, CInstr [] CZero JMP,
     AInstr 0, CInstr [RA] (CReg RM) JNone, CInstr [RM] CMinusOne JNone,
     AInstr 0, CInstr [RM] (CInc RM) JNone]"
  using assms by (auto simp: comparison_lines_def asm_simps)

lemma exec_comparison:
  assumes p1: "ram m 0 \<noteq> 1" and p2: "ram m 0 \<noteq> 2"
  shows "exec 15
    [AInstr 0, CInstr [RA, RM] (CDec RM) JNone, CInstr [RD] (CReg RM) JNone,
     AInstr 0, CInstr [RA, RM] (CDec RM) JNone, CInstr [RD] (CSub RM RD) JNone,
     AInstr 13, CInstr [] (CReg RD) j,
     AInstr 0, CInstr [RA] (CReg RM) JNone, CInstr [RM] CZero JNone,
     AInstr 16, CInstr [] CZero JMP,
     AInstr 0, CInstr [RA] (CReg RM) JNone, CInstr [RM] CMinusOne JNone,
     AInstr 0, CInstr [RM] (CInc RM) JNone] 0 m
   = Halted \<lparr>regA = 0, regD = ram m (ram m 0 - 2) - ram m (ram m 0 - 1),
       ram = (ram m)(ram m 0 - 2 :=
                (if jump_taken j (ram m (ram m 0 - 2) - ram m (ram m 0 - 1)) then - 1 else 0),
              0 := ram m 0 - 1)\<rparr>"
proof (cases "jump_taken j (ram m (ram m 0 - 2) - ram m (ram m 0 - 1))")
  case True
  with p1 p2 show ?thesis
    by (simp add: exec_unfold is_halt_loop_def store_def reg_val_def Let_def;
        auto simp: fun_eq_iff)
next
  case False
  with p1 p2 show ?thesis
    by (simp add: exec_unfold is_halt_loop_def store_def reg_val_def Let_def;
        auto simp: fun_eq_iff)
qed

lemma sint_diff_exact:
  fixes v1 v2 :: word16
  assumes "- 32768 \<le> sint v1 - sint v2" and "sint v1 - sint v2 \<le> 32767"
  shows "sint (v1 - v2) = sint v1 - sint v2"
  using assms by (simp add: sint_word_diff signed_take_bit_int_eq_self)

lemma difference_test_exact:
  assumes "comparison \<in> set [''lt'', ''gt'', ''eq'']"
    and "- 32768 \<le> sint v1 - sint v2" and "sint v1 - sint v2 \<le> 32767"
  shows "difference_test comparison v1 v2 = compare_holds comparison v1 v2"
  using assms(1) sint_diff_exact [OF assms(2,3)]
  by (auto simp: difference_test_def compare_holds_def)

lemma difference_test_eq: "difference_test ''eq'' v1 v2 = compare_holds ''eq'' v1 v2"
  by (simp add: difference_test_def compare_holds_def)

lemma difference_test_jump:
  assumes "(comparison, ins, j) \<in> {(''eq'', ''JEQ'', JEQ), (''gt'', ''JGT'', JGT), (''lt'', ''JLT'', JLT)}"
  shows "jump_taken j (v1 - v2) = difference_test comparison v1 v2"
  using assms by (auto simp: difference_test_def)

text \<open>
  C3 (as the code has it). For \<open>eq\<close>, \<open>gt\<close> and \<open>lt\<close> the handler appends one Block
  and adds one to the counter. Run from a state whose stack pointer \<open>p\<close> is neither 1
  nor 2 (so that the two operand cells are not the pointer's own cell), with \<open>v1\<close> in
  cell \<open>p - 2\<close> and \<open>v2\<close> in cell \<open>p - 1\<close>, the Block halts within 15 steps, lowers
  the pointer by one and overwrites cell \<open>p - 2\<close>, and no other cell, with all bits set
  when the difference \<open>v1 - v2\<close> of 16 bits passes the operator's test against zero and
  with all bits zero when it does not: never with another value. That test is the
  comparison of \<open>v1\<close> against \<open>v2\<close> for \<open>eq\<close> always, and for \<open>gt\<close> and \<open>lt\<close>
  whenever the difference of the two numbers fits in 16 bits.
\<close>

theorem comparison_block_result:
  assumes cmp: "comparison \<in> set [''lt'', ''gt'', ''eq'']"
    and sp: "ram m 0 = p" and p1: "p \<noteq> 1" and p2: "p \<noteq> 2"
    and v1: "ram m (p - 2) = v1" and v2: "ram m (p - 1) = v2"
  shows "\<exists>ins. jump_of comparison = Inr ins
     \<and> write_arithmetic comparison cw
         = Inr (cw\<lparr>assembly := assembly cw @ [comparison_lines ins (lt_counter cw)],
                  temp_vm_instruction := [], lt_counter := lt_counter cw + 1\<rparr>)
     \<and> hack_run (15 + k) (comparison_lines ins (lt_counter cw)) m
         = Halted \<lparr>regA = 0, regD = v1 - v2,
             ram = (ram m)(p - 2 := (if difference_test comparison v1 v2 then - 1 else 0),
                           0 := p - 1)\<rparr>
     \<and> (comparison = ''eq''
          \<or> (- 32768 \<le> sint v1 - sint v2 \<and> sint v1 - sint v2 \<le> 32767)
          \<longrightarrow> difference_test comparison v1 v2 = compare_holds comparison v1 v2)"
proof -
  from cmp obtain ins j where
    tri: "(comparison, ins, j) \<in> {(''eq'', ''JEQ'', JEQ), (''gt'', ''JGT'', JGT), (''lt'', ''JLT'', JLT)}"
    by auto
  then have jo: "jump_of comparison = Inr ins" by (auto simp: jump_of_def)
  from cmp jo have wr: "write_arithmetic comparison cw
         = Inr (cw\<lparr>assembly := assembly cw @ [comparison_lines ins (lt_counter cw)],
                  temp_vm_instruction := [], lt_counter := lt_counter cw + 1\<rparr>)"
    by (auto simp: write_arithmetic_def generate_comparison_def emit_def flush_block_def)
  from tri have "(ins, j) \<in> {(''JEQ'', JEQ), (''JGT'', JGT), (''JLT'', JLT)}" by auto
  note asm = assemble_comparison [OF this, of "lt_counter cw"]
  from sp p1 p2 have "ram m 0 \<noteq> 1" "ram m 0 \<noteq> 2" by simp_all
  note ex = exec_comparison [OF this, of j]
  have "hack_run 15 (comparison_lines ins (lt_counter cw)) m
         = Halted \<lparr>regA = 0, regD = v1 - v2,
             ram = (ram m)(p - 2 := (if difference_test comparison v1 v2 then - 1 else 0),
                           0 := p - 1)\<rparr>"
    unfolding hack_run_def asm using ex sp v1 v2 difference_test_jump [OF tri, of v1 v2]
    by simp
  then have run: "hack_run (15 + k) (comparison_lines ins (lt_counter cw)) m
         = Halted \<lparr>regA = 0, regD = v1 - v2,
             ram = (ram m)(p - 2 := (if difference_test comparison v1 v2 then - 1 else 0),
                           0 := p - 1)\<rparr>"
    by (rule hack_run_more_fuel)
  have same: "comparison = ''eq''
          \<or> (- 32768 \<le> sint v1 - sint v2 \<and> sint v1 - sint v2 \<le> 32767)
          \<longrightarrow> difference_test comparison v1 v2 = compare_holds comparison v1 v2"
    using difference_test_exact [OF cmp, of v1 v2] difference_test_eq [of v1 v2] by blast
  from jo wr run same show ?thesis by blast
qed

theorem comparison_block_result_witness:
  "''lt'' \<in> set [''lt'', ''gt'', ''eq'']
   \<and> ram (machine0\<lparr>ram := (ram machine0)(0 := 258, 256 := 3, 257 := 5)\<rparr>) 0 = 258
   \<and> (258 :: word16) \<noteq> 1 \<and> (258 :: word16) \<noteq> 2
   \<and> ram (machine0\<lparr>ram := (ram machine0)(0 := 258, 256 := 3, 257 := 5)\<rparr>) (258 - 2) = 3
   \<and> ram (machine0\<lparr>ram := (ram machine0)(0 := 258, 256 := 3, 257 := 5)\<rparr>) (258 - 1) = 5
   \<and> write_arithmetic ''lt'' (CodeWriter_init ''out.asm'')
       = Inr ((CodeWriter_init ''out.asm'')
               \<lparr>assembly := assembly (CodeWriter_init ''out.asm'') @ [comparison_lines ''JLT'' 0],
                temp_vm_instruction := [], lt_counter := 1\<rparr>)
   \<and> hack_run 15 (comparison_lines ''JLT'' 0)
        (machine0\<lparr>ram := (ram machine0)(0 := 258, 256 := 3, 257 := 5)\<rparr>)
       = Halted \<lparr>regA = 0, regD = 3 - 5,
           ram = (ram machine0)(0 := 258, 256 := 3, 257 := 5, 258 - 2 := - 1, 0 := 258 - 1)\<rparr>
   \<and> compare_holds ''lt'' 3 5"
  using comparison_block_result [of "''lt''"
      "machine0\<lparr>ram := (ram machine0)(0 := 258, 256 := 3, 257 := 5)\<rparr>" 258 3 5
      "CodeWriter_init ''out.asm''" 0]
  by (simp add: jump_of_def difference_test_def compare_holds_def CodeWriter_init_def)

text \<open>
  C3 as stated fails where the difference overflows: \<open>32767 > -1\<close> holds, yet the
  program translated from \<open>push constant 32767\<close>, \<open>push constant 1\<close>, \<open>neg\<close>, \<open>gt\<close>
  leaves all bits zero on the stack (cell 256, under the final pointer 257).
\<close>

theorem comparison_overflow_counterexample:
  "program_leaves 40 [''push constant 32767'', ''push constant 1'', ''neg'', ''gt''] machine0 256 = Some 0
   \<and> program_leaves 40 [''push constant 32767'', ''push constant 1'', ''neg'', ''gt''] machine0 0 = Some 257
   \<and> compare_holds ''gt'' 32767 (- 1)"
proof -
  have out: "output_program [''push constant 32767'', ''push constant 1'', ''neg'', ''gt''] = Inr
    [''// initialize register values'', ''@256'', ''D=A'', ''@SP'', ''M=D'',
     ''// push constant 32767'', ''@32767'', ''D=A'', ''@SP'', ''A=M'', ''M=D'', ''@SP'', ''M=M+1'',
     ''// push constant 1'', ''@1'', ''D=A'', ''@SP'', ''A=M'', ''M=D'', ''@SP'', ''M=M+1'',
     ''// neg'', ''@SP'', ''A=M-1'', ''M=-M'',
     ''@SP'', ''AM=M-1'', ''D=M'', ''@SP'', ''AM=M-1'', ''D=M-D'', ''@LT_TRUE_0'', ''D;JGT'',
     ''@SP'', ''A=M'', ''M=0'', ''@LT_END_0'', ''0;JMP'', ''(LT_TRUE_0)'', ''@SP'', ''A=M'', ''M=-1'',
     ''(LT_END_0)'', ''@SP'', ''M=M+1'',
     ''(END)'', ''@END'', ''0;JMP'']"
    by (simp add: translate_simps str_int_0)
  show ?thesis
    unfolding program_leaves_def out
    by (simp add: hack_run_def asm_simps exec_simps machine0_def compare_holds_def)
qed


subsection \<open>A push of a constant followed by a pop\<close>

lemma resolve_str_nat: "n < 32768 \<Longrightarrow> resolve labels (str_nat n) = Some n"
  by (simp add: resolve_def str_nat_nonempty str_nat_digits nat_of_decimal_str_nat)

lemma resolve_SP: "resolve [] ''SP'' = Some 0"
  by (simp add: resolve_def is_digit_def predefined_def)

lemma not_skipped: "c \<noteq> CHR ''/'' \<Longrightarrow> \<not> is_skipped (c # s)"
  by (simp add: is_skipped_def)

lemma not_label: "c \<noteq> CHR ''('' \<Longrightarrow> \<not> is_label (c # s)"
  by (simp add: is_label_def)

lemmas c_instr_simps = parse_line_def parse_c_def parse_dest_def parse_comp_def parse_reg_def
  parse_binop_def operands_ok_def parse_jump_def

lemma assemble_push_pop:
  assumes "n < 32768" and "a < 32768"
  shows "assemble
     ([echo_comment C_PUSH ''constant'' x, ''@'' @ str_nat n, ''D=A'', ''@SP'', ''A=M'', ''M=D'',
       ''@SP'', ''M=M+1''] @
      [echo_comment C_POP segment y, ''@SP'', ''M=M-1'', ''@SP'', ''A=M'', ''D=M'',
       ''@'' @ str_nat a, ''M=D''])
   = Some [AInstr (of_nat n), CInstr [RD] (CReg RA) JNone, AInstr 0, CInstr [RA] (CReg RM) JNone,
       CInstr [RM] (CReg RD) JNone, AInstr 0, CInstr [RM] (CInc RM) JNone,
       AInstr 0, CInstr [RM] (CDec RM) JNone, AInstr 0, CInstr [RA] (CReg RM) JNone,
       CInstr [RD] (CReg RM) JNone, AInstr (of_nat a), CInstr [RM] (CReg RD) JNone]"
  using assms
  by (simp add: assemble_def echo_comment_skipped no_label_echo not_skipped not_label
      resolve_str_nat resolve_SP c_instr_simps)

lemma exec_push_pop:
  assumes "ram m 0 \<noteq> 0" and "a \<noteq> 0"
  shows "exec 14 [AInstr K, CInstr [RD] (CReg RA) JNone, AInstr 0, CInstr [RA] (CReg RM) JNone,
       CInstr [RM] (CReg RD) JNone, AInstr 0, CInstr [RM] (CInc RM) JNone,
       AInstr 0, CInstr [RM] (CDec RM) JNone, AInstr 0, CInstr [RA] (CReg RM) JNone,
       CInstr [RD] (CReg RM) JNone, AInstr a, CInstr [RM] (CReg RD) JNone] 0 m
    = Halted \<lparr>regA = a, regD = K, ram = (ram m)(ram m 0 := K, 0 := ram m 0, a := K)\<rparr>"
  using assms
  by (simp add: exec_unfold is_halt_loop_def store_def reg_val_def Let_def;
      auto simp: fun_eq_iff)


lemma str_int_nonneg: "0 \<le> k \<Longrightarrow> str_int k = str_nat (nat k)"
  by (simp add: str_int_def)

lemma word16_of_int_nonzero:
  assumes "0 < x" and "x \<le> 32767"
  shows "(word_of_int x :: word16) \<noteq> 0"
proof -
  from assms have "\<not> (65536 :: int) dvd x" by (intro zdvd_not_zless) simp_all
  then show ?thesis by (simp add: word_of_int_eq_0_iff)
qed

text \<open>
  What the handler emits when it is called directly with integers, for the one segment
  its table has: for an integer \<open>k\<close> from 0 to 32767 and an address \<open>b + i\<close> up to
  32767, the two Blocks, run one after the other from a state whose stack pointer \<open>p\<close>
  is not 0, halt within 14 steps, leave \<open>k\<close> in cell \<open>b + i\<close> and the stack pointer at
  \<open>p\<close> again.
\<close>

lemma direct_push_then_pop:
  assumes k: "0 \<le> k" "k \<le> 32767"
    and seg: "segment \<noteq> ''constant''" "default_bases segment = Some b"
    and idx: "0 \<le> i" "b + i \<le> 32767"
    and tmp: "temp_vm_instruction cw = []"
    and sp: "ram m 0 = p" "p \<noteq> 0"
  shows "\<exists>blk1 blk2 m'.
     run_calls [PushPop C_PUSH ''constant'' (PInt k), PushPop C_POP segment (PInt i)] cw
       = Inr (cw\<lparr>assembly := assembly cw @ [blk1, blk2]\<rparr>)
     \<and> hack_run (14 + f) (blk1 @ blk2) m = Halted m'
     \<and> m' = \<lparr>regA = word_of_int (b + i), regD = word_of_int k,
              ram = (ram m)(p := word_of_int k, 0 := p, word_of_int (b + i) := word_of_int k)\<rparr>
     \<and> ram m' (word_of_int (b + i)) = word_of_int k
     \<and> ram m' 0 = p"
proof -
  from seg(2) have b: "b = 256" and s: "segment = ''sp''"
    by (simp_all add: default_bases_def split: if_splits)
  define blk1 where "blk1 = [echo_comment C_PUSH ''constant'' (PInt k), ''@'' @ str_nat (nat k),
     ''D=A'', ''@SP'', ''A=M'', ''M=D'', ''@SP'', ''M=M+1'']"
  define blk2 where "blk2 = [echo_comment C_POP segment (PInt i), ''@SP'', ''M=M-1'', ''@SP'',
     ''A=M'', ''D=M'', ''@'' @ str_nat (nat (b + i)), ''M=D'']"
  define m' where "m' = \<lparr>regA = word_of_int (b + i), regD = word_of_int k,
     ram = (ram m)(p := word_of_int k, 0 := p, word_of_int (b + i) := (word_of_int k :: word16))\<rparr>"
  from idx b have pos: "0 \<le> b + i" "0 < b + i" by simp_all
  have "run_calls [PushPop C_PUSH ''constant'' (PInt k), PushPop C_POP segment (PInt i)] cw
       = Inr (cw\<lparr>assembly := assembly cw @ [blk1, blk2], temp_vm_instruction := []\<rparr>)"
    using seg k pos tmp
    by (simp add: write_push_pop_def base_plus_index_def emit_def flush_block_def Let_def
        blk1_def blk2_def str_int_nonneg)
  moreover from tmp have "cw\<lparr>assembly := assembly cw @ [blk1, blk2], temp_vm_instruction := []\<rparr>
      = cw\<lparr>assembly := assembly cw @ [blk1, blk2]\<rparr>"
    by (cases cw) simp
  ultimately have run: "run_calls [PushPop C_PUSH ''constant'' (PInt k), PushPop C_POP segment (PInt i)] cw
       = Inr (cw\<lparr>assembly := assembly cw @ [blk1, blk2]\<rparr>)"
    by simp
  from k pos idx have lt: "nat k < 32768" "nat (b + i) < 32768" by simp_all
  note asm = assemble_push_pop [OF lt, of "PInt k" segment "PInt i"]
  from pos idx have nz: "(word_of_int (b + i) :: word16) \<noteq> 0"
    by (intro word16_of_int_nonzero) simp_all
  from sp have "ram m 0 \<noteq> 0" by simp
  note ex = exec_push_pop [OF this nz, of "word_of_int k"]
  from k pos have conv: "(of_nat (nat k) :: word16) = word_of_int k"
    "(of_nat (nat (b + i)) :: word16) = word_of_int (b + i)"
    by simp_all
  have "hack_run 14 (blk1 @ blk2) m = Halted m'"
    unfolding hack_run_def blk1_def blk2_def asm conv m'_def using ex sp by simp
  then have halt: "hack_run (14 + f) (blk1 @ blk2) m = Halted m'"
    by (rule hack_run_more_fuel)
  from nz have "ram m' (word_of_int (b + i)) = word_of_int k" "ram m' 0 = p"
    by (simp_all add: m'_def)
  with run halt m'_def show ?thesis by blast
qed

text \<open>
  C2 (the code misses it). The claim is right about the language: a push of a constant
  followed by a pop to a slot of a segment is to leave the constant in the slot and the
  stack pointer where it was. The translator attempts the pop and fails on every source
  text. The table \<open>default_bases\<close> holds none of the segments of the language, so the
  lookup raises \<open>KeyError\<close>, here for \<open>temp\<close>; and for the one name the table has,
  \<open>sp\<close>, the driver hands the index over as the token of the line, a string, and the
  sum \<open>default_bases[segment] + index\<close> raises \<open>TypeError\<close>. No program is produced.
\<close>

theorem push_then_pop_raises:
  "output_program [''push constant 7'', ''pop temp 0''] = Inl (KeyError ''temp'')
   \<and> output_program [''push constant 5'', ''pop sp 0''] = Inl TypeError"
  by (simp add: translate_simps base_plus_index_def default_bases_def)

end
